theory Spec2Isabelle
  imports Main "HOL-Library.Sublist"
begin

section \<open>Python values used by web_scraping.py\<close>

text \<open>
  Strings are HOL strings; a character is read as the code point of the same number, so
  the model covers Python text whose code points are below 256 (the non-breaking space
  \<open>\xa0\<close> of the pages is one of them). Integers are unbounded, as Python's are.
  An exception is a value of type \<open>error\<close>; a function that can raise returns
  \<open>error + 'a\<close>, with \<open>Inl\<close> for the exception.

  In the source the docstring of \<open>get_movie_dict\<close> is closed by four quotes and the
  docstring of \<open>get_country\<close> is indented deeper than the body of the function; both
  functions are modelled as their statements read, the docstrings taken as documentation.
\<close>

datatype error = ValueError | AttributeError | IndexError | CollaboratorError string

definition bind_err :: "error + 'a \<Rightarrow> ('a \<Rightarrow> error + 'b) \<Rightarrow> error + 'b" where
  "bind_err r f = (case r of Inl e \<Rightarrow> Inl e | Inr x \<Rightarrow> f x)"

subsection \<open>str methods\<close>

definition isspace :: "char \<Rightarrow> bool" where
  \<comment> \<open>\<open>str.isspace\<close> on one character below 256: tab, LF, VT, FF, CR, FS, GS, RS, US, space,
      NEL and the non-breaking space.\<close>
  "isspace c = (c \<in> set [CHR 0x09, CHR 0x0A, CHR 0x0B, CHR 0x0C, CHR 0x0D, CHR 0x1C, CHR 0x1D,
                          CHR 0x1E, CHR 0x1F, CHR 0x20, CHR 0x85, CHR 0xA0])"

definition str_strip :: "string \<Rightarrow> string" where
  \<comment> \<open>\<open>s.strip()\<close>\<close>
  "str_strip s = rev (dropWhile isspace (rev (dropWhile isspace s)))"

fun split_from :: "string \<Rightarrow> string \<Rightarrow> string list" where
  \<comment> \<open>the scan of \<open>s.split()\<close>: the first argument is the token read so far\<close>
  "split_from cur [] = (if cur = [] then [] else [cur])"
| "split_from cur (c # cs) =
     (if isspace c then (if cur = [] then split_from [] cs else cur # split_from [] cs)
      else split_from (cur @ [c]) cs)"

definition str_split :: "string \<Rightarrow> string list" where
  \<comment> \<open>\<open>s.split()\<close>: the maximal runs of non-whitespace characters\<close>
  "str_split s = split_from [] s"

fun str_contains :: "string \<Rightarrow> string \<Rightarrow> bool" where
  \<comment> \<open>\<open>sub in s\<close> for two strings, written \<open>str_contains s sub\<close>\<close>
  "str_contains [] sub = (sub = [])"
| "str_contains (c # cs) sub = (prefix sub (c # cs) \<or> str_contains cs sub)"

fun replace_from :: "string \<Rightarrow> string \<Rightarrow> string \<Rightarrow> string" where
  \<comment> \<open>the scan of \<open>s.replace(old, new)\<close> for a non-empty \<open>old\<close>: left to right, every
      occurrence that does not overlap an earlier one\<close>
  "replace_from [] old new = []"
| "replace_from (c # cs) old new =
     (if prefix old (c # cs) then new @ replace_from (drop (length old - 1) cs) old new
      else c # replace_from cs old new)"

definition str_replace :: "string \<Rightarrow> string \<Rightarrow> string \<Rightarrow> string" where
  \<comment> \<open>\<open>s.replace(old, new)\<close>; an empty \<open>old\<close> matches before every character and at the end\<close>
  "str_replace s old new =
     (if old = [] then new @ concat (map (\<lambda>c. c # new) s) else replace_from s old new)"

definition isdigit :: "char \<Rightarrow> bool" where
  \<comment> \<open>\<open>str.isdigit\<close> on one character below 256: the ten decimal digits and the
      superscripts two, three and one\<close>
  "isdigit c = (c \<in> set ''0123456789'' \<or> c \<in> set [CHR 0xB2, CHR 0xB3, CHR 0xB9])"

definition str_isdigit :: "string \<Rightarrow> bool" where
  \<comment> \<open>\<open>s.isdigit()\<close>\<close>
  "str_isdigit s = (s \<noteq> [] \<and> list_all isdigit s)"

subsection \<open>int() and str()\<close>

definition digit_val :: "char \<Rightarrow> int" where
  "digit_val c = int (length (takeWhile (\<lambda>d. d \<noteq> c) ''0123456789''))"

definition digits_val :: "string \<Rightarrow> int" where
  "digits_val ds = foldl (\<lambda>acc d. 10 * acc + digit_val d) 0 ds"

fun digit_groups :: "bool \<Rightarrow> string \<Rightarrow> bool" where
  \<comment> \<open>decimal digits, with single underscores between digits only; the flag says that the
      previous character was a digit\<close>
  "digit_groups prev [] = prev"
| "digit_groups prev (c # cs) =
     (if c \<in> set ''0123456789'' then digit_groups True cs
      else if c = CHR ''_'' \<and> prev then digit_groups False cs
      else False)"

definition int_space :: "char \<Rightarrow> bool" where
  \<comment> \<open>the characters that \<open>int\<close> skips around a number: tab, LF, VT, FF, CR, space, NEL
      and the non-breaking space; unlike \<open>str.isspace\<close>, not FS, GS, RS and US\<close>
  "int_space c = (c \<in> set [CHR 0x09, CHR 0x0A, CHR 0x0B, CHR 0x0C, CHR 0x0D, CHR 0x20,
                            CHR 0x85, CHR 0xA0])"

definition int_of_str :: "string \<Rightarrow> error + int" where
  \<comment> \<open>\<open>int(s)\<close> for a string: surrounding whitespace, an optional sign, decimal digits\<close>
  "int_of_str s =
     (let t = rev (dropWhile int_space (rev (dropWhile int_space s)));
          neg = (t \<noteq> [] \<and> hd t = CHR ''-'');
          body = (if t \<noteq> [] \<and> (hd t = CHR ''-'' \<or> hd t = CHR ''+'') then tl t else t)
      in if digit_groups False body
         then Inr ((if neg then -1 else 1) * digits_val (filter (\<lambda>c. c \<noteq> CHR ''_'') body))
         else Inl ValueError)"

function str_of_nat :: "nat \<Rightarrow> string" where
  "str_of_nat n =
     (if n < 10 then [''0123456789'' ! n] else str_of_nat (n div 10) @ [''0123456789'' ! (n mod 10)])"
  by pat_completeness auto
termination
  by (relation "measure id") auto

definition str_of_int :: "int \<Rightarrow> string" where
  \<comment> \<open>\<open>str(i)\<close>\<close>
  "str_of_int i = (if i < 0 then CHR ''-'' # str_of_nat (nat (- i)) else str_of_nat (nat i))"

subsection \<open>list methods\<close>

fun list_index :: "'a list \<Rightarrow> 'a \<Rightarrow> error + nat" where
  \<comment> \<open>\<open>xs.index(x)\<close>: the first position of \<open>x\<close>, ValueError when there is none\<close>
  "list_index [] x = Inl ValueError"
| "list_index (y # ys) x =
     (if y = x then Inr 0 else (case list_index ys x of Inl e \<Rightarrow> Inl e | Inr i \<Rightarrow> Inr (Suc i)))"

definition getitem :: "'a list \<Rightarrow> int \<Rightarrow> error + 'a" where
  \<comment> \<open>\<open>xs[i]\<close>: the index \<open>-k\<close> reads the \<open>k\<close>-th element from the end\<close>
  "getitem xs i =
     (if 0 \<le> i \<and> i < int (length xs) then Inr (xs ! nat i)
      else if i < 0 \<and> - int (length xs) \<le> i then Inr (xs ! nat (int (length xs) + i))
      else Inl IndexError)"

definition py_range :: "int \<Rightarrow> int list" where
  \<comment> \<open>\<open>range(n)\<close>: empty when \<open>n\<close> is not positive\<close>
  "py_range n = map int [0..<nat n]"

section \<open>The parsed page\<close>

text \<open>
  BeautifulSoup is a collaborator of the module. A page element is modelled by what the
  module reads of it: a string node by its text and its parent; a tag by its name, its
  attributes (a multi-valued attribute such as \<open>class\<close> has several values), its children and
  the results of \<open>findParent()\<close>, \<open>findNext()\<close> (the next tag in document order) and
  \<open>findNextSibling()\<close> (the next sibling that is a tag). A soup is the sequence of the
  elements of the document, in document order.
\<close>

datatype element =
    NavigableString (string_of: string) (findParent: "element option")
  | Tag (name: string) (attrs: "(string \<times> string list) list") (contents: "element list")
        (findParent: "element option") (findNext: "element option")
        (findNextSibling: "element option")

type_synonym soup = "element list"

fun get_text :: "element \<Rightarrow> string" where
  \<comment> \<open>\<open>element.text\<close>: the strings below the element, concatenated\<close>
  "get_text (NavigableString s p) = s"
| "get_text (Tag n a cs p nx sb) = concat (map get_text cs)"

fun is_string :: "string \<Rightarrow> element \<Rightarrow> bool" where
  "is_string x (NavigableString s p) = (s = x)"
| "is_string x (Tag n a cs p nx sb) = False"

fun element_contains :: "element \<Rightarrow> string \<Rightarrow> bool" where
  \<comment> \<open>\<open>x in element\<close>: for a tag, \<open>x in element.contents\<close>, and a string equals only a child
      that is a string node of that text\<close>
  "element_contains (Tag n a cs p nx sb) x = list_ex (is_string x) cs"
| "element_contains (NavigableString s p) x = str_contains s x"

fun has_name :: "string \<Rightarrow> element \<Rightarrow> bool" where
  "has_name nm (Tag n a cs p nx sb) = (n = nm)"
| "has_name nm (NavigableString s p) = False"

definition join_spaces :: "string list \<Rightarrow> string" where
  "join_spaces vs = (case vs of [] \<Rightarrow> [] | v # ws \<Rightarrow> v @ concat (map (\<lambda>w. CHR '' '' # w) ws))"

fun has_attr :: "string \<Rightarrow> string \<Rightarrow> element \<Rightarrow> bool" where
  \<comment> \<open>an attribute filter such as \<open>class_='desc'\<close> or \<open>itemprop='ratingCount'\<close>: one of the
      attribute's values is the given one, or all of them joined by spaces are\<close>
  "has_attr k v (Tag n a cs p nx sb) =
     (case map_of a k of None \<Rightarrow> False | Some vs \<Rightarrow> v \<in> set vs \<or> (vs \<noteq> [] \<and> join_spaces vs = v))"
| "has_attr k v (NavigableString s p) = False"

definition find_all :: "soup \<Rightarrow> string \<Rightarrow> element list" where
  \<comment> \<open>\<open>soup.find_all(name)\<close>\<close>
  "find_all soup nm = filter (has_name nm) soup"

definition find_tag :: "soup \<Rightarrow> string \<Rightarrow> element option" where
  \<comment> \<open>\<open>soup.find(name)\<close>\<close>
  "find_tag soup nm = List.find (has_name nm) soup"

definition find_tag_attr :: "soup \<Rightarrow> string \<Rightarrow> string \<Rightarrow> string \<Rightarrow> element option" where
  \<comment> \<open>\<open>soup.find(name, key=value)\<close>\<close>
  "find_tag_attr soup nm k v = List.find (\<lambda>e. has_name nm e \<and> has_attr k v e) soup"

definition find_attr :: "soup \<Rightarrow> string \<Rightarrow> string \<Rightarrow> element option" where
  \<comment> \<open>\<open>soup.find(key=value)\<close>\<close>
  "find_attr soup k v = List.find (has_attr k v) soup"

definition find_text :: "soup \<Rightarrow> string \<Rightarrow> element option" where
  \<comment> \<open>\<open>soup.find(text=s)\<close>: the first string node that is exactly \<open>s\<close>\<close>
  "find_text soup s = List.find (is_string s) soup"

section \<open>Fetching\<close>

text \<open>
  \<open>requests.get(url).text\<close> parsed by BeautifulSoup is the collaborator \<open>fetch\<close>; it may
  raise. The effect of a request is recorded: a function that fetches takes the log of the
  URLs requested so far and returns, with its result or its exception, the log it leaves.
\<close>

type_synonym fetcher = "string \<Rightarrow> error + soup"

type_synonym 'a io = "string list \<Rightarrow> (error + 'a) \<times> string list"

definition bind_io :: "'a io \<Rightarrow> ('a \<Rightarrow> 'b io) \<Rightarrow> 'b io" where
  \<comment> \<open>one statement after another: an exception ends the function, the log is kept\<close>
  "bind_io m f log = (case m log of (Inl e, log') \<Rightarrow> (Inl e, log') | (Inr x, log') \<Rightarrow> f x log')"

definition pure_io :: "error + 'a \<Rightarrow> 'a io" where
  \<comment> \<open>a statement that fetches nothing\<close>
  "pure_io r log = (r, log)"

definition create_soup :: "fetcher \<Rightarrow> string \<Rightarrow> soup io" where
  "create_soup fetch url log = (fetch url, log @ [url])"

section \<open>Cleaning functions\<close>

function re_sub_from :: "char \<Rightarrow> string \<Rightarrow> string" where
  \<comment> \<open>\<open>re.sub(c + '.+', '', s)\<close> for a character \<open>c\<close>: every \<open>c\<close> that is followed by at
      least one character other than a newline is removed with the rest of its line\<close>
  "re_sub_from c [] = []"
| "re_sub_from c (x # xs) =
     (if x = c \<and> xs \<noteq> [] \<and> hd xs \<noteq> CHR 0x0A
      then re_sub_from c (dropWhile (\<lambda>y. y \<noteq> CHR 0x0A) xs)
      else x # re_sub_from c xs)"
  by pat_completeness auto
termination
  by (relation "measure (\<lambda>(c, s). length s)") (auto simp: length_dropWhile_le less_Suc_eq_le)

definition clean_title :: "string \<Rightarrow> string" where
  "clean_title string = re_sub_from (CHR 0xA0) string"

definition remove_commas :: "string \<Rightarrow> string" where
  "remove_commas string = str_replace string '','' ''''"

definition clean_budget :: "string \<Rightarrow> string" where
  "clean_budget string =
     (let string = str_replace string ''Budget:'' '''';
          string = remove_commas string
      in re_sub_from (CHR 0x0A) string)"

definition clean_genres :: "string \<Rightarrow> string" where
  \<comment> \<open>both patterns are literal texts: a newline and a space; a non-breaking space and a bar\<close>
  "clean_genres string =
     (let string = str_replace string ''Genres:'' '''';
          string = str_replace string [CHR 0x0A, CHR 0x20] ''''
      in str_replace string [CHR 0xA0, CHR ''|''] '', '')"

definition dollars_to_int :: "string \<Rightarrow> error + int" where
  "dollars_to_int dollars_string = int_of_str (str_replace dollars_string ''$'' '''')"

type_synonym date = "int \<times> int \<times> int"

type_synonym 'amount converter = "string \<Rightarrow> string \<Rightarrow> int \<Rightarrow> date \<Rightarrow> error + 'amount"

definition jul_10_2020 :: date where
  "jul_10_2020 = (2020, 7, 10)"

definition fx_to_dollars_int :: "'amount converter \<Rightarrow> string \<Rightarrow> error + 'amount" where
  \<comment> \<open>\<open>CurrencyRates().convert\<close> is the collaborator \<open>convert\<close>; its result is returned as it is\<close>
  "fx_to_dollars_int convert budget =
     bind_err (int_of_str (drop 3 budget)) (\<lambda>amount.
     convert (take 3 budget) ''USD'' amount jul_10_2020)"

section \<open>Field extractors\<close>

definition first_digit_token :: "string list \<Rightarrow> error + int option" where
  \<comment> \<open>the loop \<open>for string in tokens: if string.isdigit(): return int(string)\<close>; \<open>None\<close> when
      the loop ends without returning\<close>
  "first_digit_token tokens =
     (case List.find str_isdigit tokens of
        None \<Rightarrow> Inr None
      | Some string \<Rightarrow> bind_err (int_of_str string) (\<lambda>n. Inr (Some n)))"

definition get_title :: "soup \<Rightarrow> string option" where
  "get_title soup =
     (case find_tag soup ''h1'' of
        Some h \<Rightarrow> Some (clean_title (str_strip (get_text h)))
      | None \<Rightarrow> None)"

fun country_scan :: "element list \<Rightarrow> error + string option" where
  \<comment> \<open>the loop of \<open>get_country\<close> over the \<open>h4\<close> elements\<close>
  "country_scan [] = Inr None"
| "country_scan (element # rest) =
     (if element_contains element ''Country:'' then
        (case findParent element of
           None \<Rightarrow> Inl AttributeError
         | Some p \<Rightarrow>
            (let raw_text = str_strip (get_text p) in
             if str_contains raw_text ''Japan'' \<and> str_contains raw_text ''USA''
               then Inr (Some ''Japan, USA'')
             else if str_contains raw_text ''Japan'' then Inr (Some ''Japan'')
             else if str_contains raw_text ''USA'' then Inr (Some ''USA'')
             else country_scan rest))
      else country_scan rest)"

definition get_country :: "soup \<Rightarrow> error + string option" where
  "get_country soup = country_scan (find_all soup ''h4'')"

definition get_runtime :: "soup \<Rightarrow> error + int option" where
  \<comment> \<open>the loop returns (or raises) at the first \<open>h4\<close> that holds the label\<close>
  "get_runtime soup =
     (case List.find (\<lambda>element. element_contains element ''Runtime:'') (find_all soup ''h4'') of
        None \<Rightarrow> Inr None
      | Some element \<Rightarrow>
         (case findNext element of
            None \<Rightarrow> Inl AttributeError
          | Some n \<Rightarrow>
             bind_err (getitem (str_split (get_text n)) 0) (\<lambda>tok.
             bind_err (int_of_str tok) (\<lambda>runtime. Inr (Some runtime)))))"

datatype 'amount money = Dollars int | Converted 'amount

definition get_budget :: "'amount converter \<Rightarrow> soup \<Rightarrow> error + 'amount money option" where
  "get_budget convert soup =
     (case find_text soup ''Budget:'' of
        None \<Rightarrow> Inr None
      | Some label \<Rightarrow>
         (case findParent label of
            None \<Rightarrow> Inl AttributeError
          | Some p \<Rightarrow>
             (case findParent p of
                None \<Rightarrow> Inl AttributeError
              | Some block \<Rightarrow>
                 (let raw_text = str_strip (get_text block);
                      budget = clean_budget raw_text
                  in if str_contains budget ''$''
                     then bind_err (dollars_to_int budget) (\<lambda>n. Inr (Some (Dollars n)))
                     else bind_err (fx_to_dollars_int convert budget)
                            (\<lambda>a. Inr (Some (Converted a)))))))"

definition get_global_gross :: "soup \<Rightarrow> error + int option" where
  "get_global_gross soup =
     (case List.find (\<lambda>element. element_contains element ''Cumulative Worldwide Gross:'')
             (find_all soup ''h4'') of
        None \<Rightarrow> Inr None
      | Some element \<Rightarrow>
         (case findParent element of
            None \<Rightarrow> Inl AttributeError
          | Some p \<Rightarrow>
             (let raw_text = str_strip (get_text p);
                  raw_text = str_replace raw_text ''Cumulative Worldwide Gross: '' '''';
                  raw_text = remove_commas raw_text
              in bind_err (dollars_to_int raw_text) (\<lambda>n. Inr (Some n)))))"

definition ratings :: "string list" where
  \<comment> \<open>the list of the source; its last two literals stand with no comma between them, and
      Python joins adjacent literals\<close>
  "ratings = [''G'', ''PG'', ''PG-13'', ''R'', ''TV-Y'', ''TV-Y7'', ''TV-Y7 FV'',
              ''TV-G'', ''TV-PG'', ''TV-14'' @ ''TV-MA'']"

definition get_mpaa_rating :: "soup \<Rightarrow> error + string option" where
  "get_mpaa_rating soup =
     (case find_tag_attr soup ''div'' ''class'' ''subtext'' of
        None \<Rightarrow> Inr None
      | Some d \<Rightarrow>
         bind_err (getitem (str_split (str_strip (get_text d))) 0) (\<lambda>rating.
         if rating \<in> set ratings then Inr (Some rating) else Inr None))"

definition get_japan_release_date ::
    "(string \<Rightarrow> error + 'date) \<Rightarrow> soup \<Rightarrow> error + 'date option" where
  \<comment> \<open>\<open>dateutil.parser.parse\<close> is the collaborator \<open>to_datetime\<close>\<close>
  "get_japan_release_date to_datetime soup =
     (case find_attr soup ''href'' ''/calendar/?region=jp'' of
        None \<Rightarrow> Inr None
      | Some a \<Rightarrow>
         (case findNext a of
            None \<Rightarrow> Inl AttributeError
          | Some n \<Rightarrow> bind_err (to_datetime (get_text n)) (\<lambda>d. Inr (Some d))))"

definition get_usa_release_date :: "soup \<Rightarrow> string option" where
  "get_usa_release_date soup =
     (case find_attr soup ''title'' ''See more release dates'' of
        None \<Rightarrow> None
      | Some a \<Rightarrow> Some (str_replace (str_strip (get_text a)) '' (USA)'' ''''))"

definition get_genres :: "soup \<Rightarrow> error + string option" where
  "get_genres soup =
     (case find_text soup ''Genres:'' of
        None \<Rightarrow> Inr None
      | Some label \<Rightarrow>
         (case findParent label of
            None \<Rightarrow> Inl AttributeError
          | Some p \<Rightarrow>
             (case findParent p of
                None \<Rightarrow> Inl AttributeError
              | Some block \<Rightarrow> Inr (Some (clean_genres (str_strip (get_text block)))))))"

definition get_user_rating ::
    "(string \<Rightarrow> error + 'float) \<Rightarrow> soup \<Rightarrow> error + 'float option" where
  \<comment> \<open>\<open>float\<close> is the collaborator \<open>to_float\<close>\<close>
  "get_user_rating to_float soup =
     (case find_tag_attr soup ''span'' ''itemprop'' ''ratingValue'' of
        None \<Rightarrow> Inr None
      | Some e \<Rightarrow> bind_err (to_float (get_text e)) (\<lambda>r. Inr (Some r)))"

definition get_user_rating_count :: "soup \<Rightarrow> error + int option" where
  "get_user_rating_count soup =
     (case find_attr soup ''itemprop'' ''ratingCount'' of
        None \<Rightarrow> Inr None
      | Some e \<Rightarrow> bind_err (int_of_str (remove_commas (get_text e))) (\<lambda>n. Inr (Some n)))"

definition get_oscar_wins :: "soup \<Rightarrow> error + int option" where
  "get_oscar_wins soup =
     (case find_tag_attr soup ''span'' ''class'' ''awards-blurb'' of
        None \<Rightarrow> Inr None
      | Some blurb \<Rightarrow>
         (if str_contains (get_text blurb) ''Won''
          then first_digit_token (str_split (str_strip (get_text blurb)))
          else Inr None))"

definition get_non_oscar_wins :: "soup \<Rightarrow> error + int option" where
  \<comment> \<open>the first block returns only from inside its loop; in every other case control
      reaches the second block\<close>
  "get_non_oscar_wins soup =
     (case find_tag_attr soup ''span'' ''class'' ''awards-blurb'' of
        None \<Rightarrow> Inr None
      | Some blurb \<Rightarrow>
         bind_err
           (case findNextSibling blurb of
              Some sibling \<Rightarrow>
                (if str_contains (get_text blurb) ''Oscar'' then
                   (let raw_text = str_strip (get_text sibling) in
                    if str_contains raw_text ''win'' then first_digit_token (str_split raw_text)
                    else Inr None)
                 else Inr None)
            | None \<Rightarrow> Inr None)
           (\<lambda>returned.
              case returned of
                Some n \<Rightarrow> Inr (Some n)
              | None \<Rightarrow>
                 (let raw_text = str_strip (get_text blurb) in
                  if str_contains raw_text ''win'' then first_digit_token (str_split raw_text)
                  else Inr None)))"

definition get_metascore :: "soup \<Rightarrow> error + int option" where
  "get_metascore soup =
     (case find_tag_attr soup ''div'' ''class'' ''metacriticScore'' of
        None \<Rightarrow> Inr None
      | Some d \<Rightarrow> bind_err (int_of_str (str_strip (get_text d))) (\<lambda>n. Inr (Some n)))"

section \<open>Search pages\<close>

definition JAPAN_BASE_URL :: string where
  "JAPAN_BASE_URL = ''https://www.imdb.com/search/title/?title_type=feature&release_date=,'' @
                    ''2020-07-01&genres=animation&countries=jp&sort=release_date,desc&count='' @
                    ''100&view=simple''"

definition JAPAN_NEXT_URL :: string where
  "JAPAN_NEXT_URL = ''https://www.imdb.com/search/title/?title_type=feature&release_date=,'' @
                    ''2020-07-01&genres=animation&countries=jp&view=simple&sort=release_date,'' @
                    ''desc&count=100&start=101&ref_=adv_nxt''"

definition AMERICAN_BASE_URL :: string where
  "AMERICAN_BASE_URL = ''https://www.imdb.com/search/title/?title_type=feature&release_date=,'' @
                       ''2020-07-01&genres=animation&countries=us&sort=release_date,desc&count='' @
                       ''100&view=simple''"

definition AMERICAN_NEXT_URL :: string where
  "AMERICAN_NEXT_URL = ''https://www.imdb.com/search/title/?title_type=feature&release_date=,'' @
                       ''2020-07-01&genres=animation&countries=us&view=simple&sort=release_date,'' @
                       ''desc&count=100&start=101&ref_=adv_nxt''"

definition get_num_titles :: "fetcher \<Rightarrow> string \<Rightarrow> int io" where
  "get_num_titles fetch base_url =
     bind_io (create_soup fetch base_url) (\<lambda>soup.
     pure_io
       (case find_tag_attr soup ''div'' ''class'' ''desc'' of
          None \<Rightarrow> Inl AttributeError
        | Some d \<Rightarrow>
           (case findNext d of
              None \<Rightarrow> Inl AttributeError
            | Some h \<Rightarrow>
               (let mini_header = str_split (get_text h) in
                bind_err (list_index mini_header ''titles.'') (\<lambda>i.
                bind_err (getitem mini_header (int i - 1)) (\<lambda>tok.
                int_of_str (str_replace tok '','' '''')))))))"

definition get_search_urls :: "fetcher \<Rightarrow> string \<Rightarrow> string \<Rightarrow> string list io" where
  "get_search_urls fetch base_url next_url =
     bind_io (get_num_titles fetch base_url) (\<lambda>num_titles.
     pure_io
       (Inr ([base_url, next_url] @
             map (\<lambda>i. str_replace next_url ''101'' (str_of_int (201 + 100 * i)))
                 (py_range (num_titles div 100 - 1)))))"

section \<open>One movie\<close>

record ('date, 'float, 'amount) movie_dict =
  title :: "string option"
  country :: "string option"
  runtime_minutes :: "int option"
  budget :: "'amount money option"
  global_gross :: "int option"
  mpaa_rating :: "string option"
  japan_release_date :: "'date option"
  usa_release_date :: "string option"
  genres :: "string option"
  imdb_user_rating :: "'float option"
  imdb_user_rating_count :: "int option"
  oscar_wins :: "int option"
  non_oscar_wins :: "int option"
  metascore :: "int option"

definition get_movie_dict ::
    "fetcher \<Rightarrow> (string \<Rightarrow> error + 'date) \<Rightarrow> (string \<Rightarrow> error + 'float) \<Rightarrow> 'amount converter \<Rightarrow>
     string \<Rightarrow> ('date, 'float, 'amount) movie_dict io" where
  "get_movie_dict fetch to_datetime to_float convert link =
     (let base_url = ''https://www.imdb.com'';
          url = base_url @ link
      in
      bind_io (create_soup fetch url) (\<lambda>soup.
      let title = get_title soup in
      bind_io (pure_io (get_country soup)) (\<lambda>country.
      bind_io (pure_io (get_runtime soup)) (\<lambda>runtime.
      bind_io (pure_io (get_budget convert soup)) (\<lambda>budget.
      bind_io (pure_io (get_global_gross soup)) (\<lambda>global_gross.
      bind_io (pure_io (get_mpaa_rating soup)) (\<lambda>mpaa_rating.
      let release_info_url = url @ ''releaseinfo'' in
      bind_io (create_soup fetch release_info_url) (\<lambda>release_info_soup.
      bind_io (pure_io
                 (if country = Some ''Japan'' then
                    bind_err (get_japan_release_date to_datetime release_info_soup)
                      (\<lambda>japan_release_date. Inr (japan_release_date, None))
                  else if country = Some ''USA'' then
                    Inr (None, get_usa_release_date release_info_soup)
                  else Inr (None, None)))
        (\<lambda>(japan_release_date, usa_release_date).
      bind_io (pure_io (get_genres soup)) (\<lambda>genres.
      bind_io (pure_io (get_user_rating to_float soup)) (\<lambda>imdb_user_rating.
      bind_io (pure_io (get_user_rating_count soup)) (\<lambda>imdb_user_rating_count.
      bind_io (pure_io (get_oscar_wins soup)) (\<lambda>oscar_wins.
      bind_io (pure_io (get_non_oscar_wins soup)) (\<lambda>non_oscar_wins.
      bind_io (pure_io (get_metascore soup)) (\<lambda>metascore.
      pure_io (Inr \<lparr>title = title, country = country, runtime_minutes = runtime,
                     budget = budget, global_gross = global_gross, mpaa_rating = mpaa_rating,
                     japan_release_date = japan_release_date,
                     usa_release_date = usa_release_date, genres = genres,
                     imdb_user_rating = imdb_user_rating,
                     imdb_user_rating_count = imdb_user_rating_count,
                     oscar_wins = oscar_wins, non_oscar_wins = non_oscar_wins,
                     metascore = metascore\<rparr>))))))))))))))))"

section \<open>The specification's wording, for comparison\<close>

definition spec_additional_urls :: "int \<Rightarrow> nat" where
  \<comment> \<open>the specification's count of additional listing URLs: \<open>ceil(T/100) - 2\<close>, none when
      that is negative\<close>
  "spec_additional_urls T = nat (- ((- T) div 100) - 2)"

fun str_count :: "string \<Rightarrow> string \<Rightarrow> nat" where
  \<comment> \<open>\<open>s.count(old)\<close> for a non-empty \<open>old\<close>: the occurrences a left-to-right scan meets\<close>
  "str_count [] old = 0"
| "str_count (c # cs) old =
     (if prefix old (c # cs) then Suc (str_count (drop (length old - 1) cs) old)
      else str_count cs old)"

fun spec_substitute :: "string \<Rightarrow> string \<Rightarrow> string \<Rightarrow> string" where
  \<comment> \<open>the specification's substitution of the offset token: the first occurrence of the
      token is replaced and the rest of the URL is kept as it is\<close>
  "spec_substitute [] old new = []"
| "spec_substitute (c # cs) old new =
     (if prefix old (c # cs) then new @ drop (length old - 1) cs
      else c # spec_substitute cs old new)"

definition spec_get_country :: "soup \<Rightarrow> error + string option" where
  \<comment> \<open>the specification's country rule: the first \<open>h4\<close> that holds the label decides, and
      later ones are not consulted\<close>
  "spec_get_country soup =
     (case List.find (\<lambda>element. element_contains element ''Country:'') (find_all soup ''h4'') of
        None \<Rightarrow> Inr None
      | Some element \<Rightarrow>
         (case findParent element of
            None \<Rightarrow> Inl AttributeError
          | Some p \<Rightarrow>
             (let raw_text = str_strip (get_text p) in
              if str_contains raw_text ''Japan'' \<and> str_contains raw_text ''USA''
                then Inr (Some ''Japan, USA'')
              else if str_contains raw_text ''Japan'' then Inr (Some ''Japan'')
              else if str_contains raw_text ''USA'' then Inr (Some ''USA'')
              else Inr None)))"

definition decides_country :: "element \<Rightarrow> bool" where
  \<comment> \<open>an \<open>h4\<close> at which the loop of \<open>get_country\<close> ends: it holds the label, and the text
      around it names Japan or the USA (or it has no parent, and the loop raises)\<close>
  "decides_country element =
     (element_contains element ''Country:'' \<and>
      (case findParent element of
         None \<Rightarrow> True
       | Some p \<Rightarrow> str_contains (str_strip (get_text p)) ''Japan'' \<or>
                   str_contains (str_strip (get_text p)) ''USA''))"

definition own_text_wins :: "element \<Rightarrow> error + int option" where
  \<comment> \<open>the rule for the text of the awards summary itself\<close>
  "own_text_wins blurb =
     (let raw_text = str_strip (get_text blurb) in
      if str_contains raw_text ''win'' then first_digit_token (str_split raw_text) else Inr None)"

definition spec_non_oscar_wins :: "soup \<Rightarrow> error + int option" where
  \<comment> \<open>the specification's precedence: the sibling's first numeric token when the summary
      mentions an Oscar and a sibling with \<open>win\<close> in its text exists (\<open>None\<close> when that sibling
      has no numeric token); otherwise the rule for the summary's own text\<close>
  "spec_non_oscar_wins soup =
     (case find_tag_attr soup ''span'' ''class'' ''awards-blurb'' of
        None \<Rightarrow> Inr None
      | Some blurb \<Rightarrow>
         (case findNextSibling blurb of
            None \<Rightarrow> own_text_wins blurb
          | Some sibling \<Rightarrow>
             if str_contains (get_text blurb) ''Oscar'' \<and>
                str_contains (str_strip (get_text sibling)) ''win''
             then first_digit_token (str_split (str_strip (get_text sibling)))
             else own_text_wins blurb))"

definition sibling_without_number :: "element \<Rightarrow> bool" where
  \<comment> \<open>the summary mentions an Oscar and has a sibling with \<open>win\<close> in its text, and no token of
      that sibling is numeric\<close>
  "sibling_without_number blurb =
     (case findNextSibling blurb of
        None \<Rightarrow> False
      | Some sibling \<Rightarrow>
         str_contains (get_text blurb) ''Oscar'' \<and>
         str_contains (str_strip (get_text sibling)) ''win'' \<and>
         List.find str_isdigit (str_split (str_strip (get_text sibling))) = None)"

definition enclosing_text :: "soup \<Rightarrow> string \<Rightarrow> string option" where
  \<comment> \<open>\<open>soup.find(text=label).findParent().findParent().text\<close>, when all of it exists\<close>
  "enclosing_text soup label =
     (case find_text soup label of
        None \<Rightarrow> None
      | Some s \<Rightarrow>
         (case findParent s of
            None \<Rightarrow> None
          | Some p \<Rightarrow> (case findParent p of None \<Rightarrow> None | Some block \<Rightarrow> Some (get_text block))))"

section \<open>Example pages\<close>

text \<open>
  Each example is the sequence of the elements of a small document, in document order.
  The results of navigation that the functions under study do not read are left \<open>None\<close>.
\<close>

definition listing_page :: "string \<Rightarrow> soup" where
  \<comment> \<open>a listing page: the \<open>div\<close> of class \<open>desc\<close> and the \<open>span\<close> in it that holds the header\<close>
  "listing_page header =
     (let inner = Tag ''span'' [] [NavigableString header None] None None None;
          desc = Tag ''div'' [(''class'', [''desc''])] [inner] None (Some inner) None;
          span = Tag ''span'' [] [NavigableString header None] (Some desc) None None
      in [desc, span, NavigableString header (Some span)])"

definition text_block :: "string \<Rightarrow> string \<Rightarrow> soup" where
  \<comment> \<open>a block of a detail page: a \<open>div\<close> that holds an \<open>h4\<close> with the label, then the rest
      of the block's text\<close>
  "text_block label rest =
     (let inner = Tag ''h4'' [(''class'', [''inline''])] [NavigableString label None]
                    None None None;
          block = Tag ''div'' [(''class'', [''txt-block''])] [inner, NavigableString rest None]
                    None (Some inner) None;
          h4 = Tag ''h4'' [(''class'', [''inline''])] [NavigableString label None]
                 (Some block) None None
      in [block, h4, NavigableString label (Some h4), NavigableString rest (Some block)])"

definition subtext_block :: "string \<Rightarrow> soup" where
  \<comment> \<open>the \<open>div\<close> of class \<open>subtext\<close> with the given text\<close>
  "subtext_block txt =
     (let d = Tag ''div'' [(''class'', [''subtext''])] [NavigableString txt None] None None None
      in [d, NavigableString txt (Some d)])"

definition awards_block :: "string \<Rightarrow> string option \<Rightarrow> soup" where
  \<comment> \<open>the awards summary with the given text and, when given, the text of a following
      sibling\<close>
  "awards_block txt sib =
     (let note = map_option
                   (\<lambda>t. Tag ''span'' [(''class'', [''awards-blurb''])] [NavigableString t None]
                          None None None) sib;
          blurb = Tag ''span'' [(''class'', [''awards-blurb''])] [NavigableString txt None]
                    None note note
      in [blurb, NavigableString txt (Some blurb)] @
         (case note of
            None \<Rightarrow> []
          | Some n \<Rightarrow> [n, NavigableString (get_text n) (Some n)]))"

definition japan_release_page :: "string \<Rightarrow> soup" where
  \<comment> \<open>a release-info page: the calendar link of Japan, followed by the cell with the date\<close>
  "japan_release_page d =
     (let cell = Tag ''td'' [(''class'', [''release-date-item__date''])] [NavigableString d None]
                   None None None;
          link = Tag ''a'' [(''href'', [''/calendar/?region=jp''])] [NavigableString ''Japan'' None]
                   None (Some cell) None
      in [link, NavigableString ''Japan'' (Some link), cell, NavigableString d (Some cell)])"

definition example_fetch :: "soup \<Rightarrow> soup \<Rightarrow> fetcher" where
  \<comment> \<open>a site with one movie: its detail page and its release-info page\<close>
  "example_fetch detail release_info url =
     (if url = ''https://www.imdb.com/title/tt0094625/'' then Inr detail
      else if url = ''https://www.imdb.com/title/tt0094625/releaseinfo'' then Inr release_info
      else Inl (CollaboratorError ''ConnectionError''))"

definition yen_rate :: "int converter" where
  \<comment> \<open>a converter that knows one rate, 107 yen to the dollar on the pinned date\<close>
  "yen_rate from_currency to_currency amount d =
     (if from_currency = ''JPY'' \<and> to_currency = ''USD'' \<and> d = jul_10_2020
      then Inr (amount div 107)
      else Inl (CollaboratorError ''RatesNotAvailableError''))"

section \<open>Properties of the string operations\<close>

text \<open>The test \<open>sub in s\<close> is the sublist relation of the library.\<close>

lemma str_contains_sublist: "str_contains s sub = sublist sub s"
proof (induction s)
  case Nil
  then show ?case by simp
next
  case (Cons c cs)
  show ?case
  proof (cases sub)
    case Nil
    then show ?thesis by simp
  next
    case (Cons a as)
    have "sublist (a # as) (c # cs) = (prefix (a # as) (c # cs) \<or> sublist (a # as) cs)"
      by (rule sublist_code(3))
    with Cons.IH [unfolded Cons] show ?thesis unfolding Cons
      by (simp only: str_contains.simps)
  qed
qed

section \<open>Properties of the search pages\<close>

lemma get_search_urls_result:
  assumes "fst (get_num_titles fetch base_url log) = Inr t"
  shows "fst (get_search_urls fetch base_url next_url log) =
         Inr ([base_url, next_url] @
              map (\<lambda>i. str_replace next_url ''101'' (str_of_int (201 + 100 * i)))
                  (py_range (t div 100 - 1)))"
  using assms
  by (cases "get_num_titles fetch base_url log")
     (simp add: get_search_urls_def bind_io_def pure_io_def)

lemma get_search_urls_Inr:
  assumes "fst (get_search_urls fetch base_url next_url log) = Inr urls"
  shows "\<exists>t. fst (get_num_titles fetch base_url log) = Inr t"
  using assms
  by (cases "get_num_titles fetch base_url log")
     (auto simp add: get_search_urls_def bind_io_def pure_io_def split: sum.splits)

lemma str_of_int_201: "str_of_int (201 + 100 * 0) = ''201''"
  by code_simp

text \<open>
  C8. When the count parsed from the first page is 250, \<open>get_search_urls\<close> returns exactly
  three URLs: the first URL, the second URL, and the second URL with the offset 201. When
  the count is 100 it returns exactly two, the first URL and the second URL.
\<close>

theorem get_search_urls_250_100:
  assumes "fst (get_num_titles fetch1 base1 log1) = Inr 250"
    and "fst (get_num_titles fetch2 base2 log2) = Inr 100"
  shows "fst (get_search_urls fetch1 base1 next1 log1) =
           Inr [base1, next1, str_replace next1 ''101'' ''201''] \<and>
         map_sum id length (fst (get_search_urls fetch1 base1 next1 log1)) = Inr 3 \<and>
         fst (get_search_urls fetch2 base2 next2 log2) = Inr [base2, next2] \<and>
         map_sum id length (fst (get_search_urls fetch2 base2 next2 log2)) = Inr 2"
proof -
  have r1: "py_range (250 div 100 - 1) = [0]" by (simp add: py_range_def)
  have r2: "py_range (100 div 100 - 1) = []" by (simp add: py_range_def)
  have u1: "fst (get_search_urls fetch1 base1 next1 log1) =
              Inr [base1, next1, str_replace next1 ''101'' ''201'']"
    unfolding get_search_urls_result [OF assms(1)] r1
    by (simp only: list.map append.simps str_of_int_201)
  have u2: "fst (get_search_urls fetch2 base2 next2 log2) = Inr [base2, next2]"
    unfolding get_search_urls_result [OF assms(2)] r2
    by (simp only: list.map append.simps)
  show ?thesis unfolding u1 u2 by simp
qed

theorem get_search_urls_250_100_witness:
  "fst (get_num_titles (\<lambda>url. Inr (listing_page ''1-100 of 250 titles.'')) JAPAN_BASE_URL [])
     = Inr 250 \<and>
   fst (get_num_titles (\<lambda>url. Inr (listing_page ''1-100 of 100 titles.'')) AMERICAN_BASE_URL [])
     = Inr 100 \<and>
   fst (get_search_urls (\<lambda>url. Inr (listing_page ''1-100 of 250 titles.''))
          JAPAN_BASE_URL JAPAN_NEXT_URL []) =
     Inr [JAPAN_BASE_URL, JAPAN_NEXT_URL,
          ''https://www.imdb.com/search/title/?title_type=feature&release_date=,'' @
          ''2020-07-01&genres=animation&countries=jp&view=simple&sort=release_date,'' @
          ''desc&count=100&start=201&ref_=adv_nxt''] \<and>
   fst (get_search_urls (\<lambda>url. Inr (listing_page ''1-100 of 100 titles.''))
          AMERICAN_BASE_URL AMERICAN_NEXT_URL []) = Inr [AMERICAN_BASE_URL, AMERICAN_NEXT_URL]"
proof -
  have h1: "fst (get_num_titles (\<lambda>url. Inr (listing_page ''1-100 of 250 titles.''))
                   JAPAN_BASE_URL []) = Inr 250"
    by code_simp
  have h2: "fst (get_num_titles (\<lambda>url. Inr (listing_page ''1-100 of 100 titles.''))
                   AMERICAN_BASE_URL []) = Inr 100"
    by code_simp
  have third: "str_replace JAPAN_NEXT_URL ''101'' ''201'' =
          ''https://www.imdb.com/search/title/?title_type=feature&release_date=,'' @
          ''2020-07-01&genres=animation&countries=jp&view=simple&sort=release_date,'' @
          ''desc&count=100&start=201&ref_=adv_nxt''"
    by code_simp
  note both = get_search_urls_250_100 [OF h1 h2, of JAPAN_NEXT_URL AMERICAN_NEXT_URL]
  from both have a: "fst (get_search_urls (\<lambda>url. Inr (listing_page ''1-100 of 250 titles.''))
          JAPAN_BASE_URL JAPAN_NEXT_URL []) =
     Inr [JAPAN_BASE_URL, JAPAN_NEXT_URL, str_replace JAPAN_NEXT_URL ''101'' ''201'']"
    by (rule conjunct1)
  from both have b: "fst (get_search_urls (\<lambda>url. Inr (listing_page ''1-100 of 100 titles.''))
          AMERICAN_BASE_URL AMERICAN_NEXT_URL []) = Inr [AMERICAN_BASE_URL, AMERICAN_NEXT_URL]"
    by (rule conjunct2 [THEN conjunct2, THEN conjunct1])
  from a have a': "fst (get_search_urls (\<lambda>url. Inr (listing_page ''1-100 of 250 titles.''))
          JAPAN_BASE_URL JAPAN_NEXT_URL []) =
     Inr [JAPAN_BASE_URL, JAPAN_NEXT_URL,
          ''https://www.imdb.com/search/title/?title_type=feature&release_date=,'' @
          ''2020-07-01&genres=animation&countries=jp&view=simple&sort=release_date,'' @
          ''desc&count=100&start=201&ref_=adv_nxt'']"
    by (simp only: third)
  from h1 h2 a' b show ?thesis by (intro conjI)
qed

lemma additional_urls_agree:
  "T mod 100 \<noteq> 0 \<Longrightarrow> nat (T div 100 - 1) = spec_additional_urls T"
  by (simp add: spec_additional_urls_def zdiv_zminus1_eq_if)

lemma additional_urls_multiple:
  "T mod 100 = 0 \<Longrightarrow> 200 \<le> T \<Longrightarrow> nat (T div 100 - 1) = Suc (spec_additional_urls T)"
  by (simp add: spec_additional_urls_def zdiv_zminus1_eq_if)

text \<open>
  C2. The specification counts \<open>ceil(T/100) - 2\<close> additional URLs; the loop runs
  \<open>T // 100 - 1\<close> times. For a count of 200 the specification asks for no additional URL,
  and \<open>get_search_urls\<close> returns one, for the offset 201, past the last title. For the
  1,400 titles of the docstring it returns 15 URLs, the last one for the offset 1401, where
  the specification asks for 14.
\<close>

theorem get_search_urls_200:
  "fst (get_search_urls (\<lambda>url. Inr (listing_page ''1-100 of 200 titles.''))
          JAPAN_BASE_URL JAPAN_NEXT_URL []) =
     Inr [JAPAN_BASE_URL, JAPAN_NEXT_URL,
          ''https://www.imdb.com/search/title/?title_type=feature&release_date=,'' @
          ''2020-07-01&genres=animation&countries=jp&view=simple&sort=release_date,'' @
          ''desc&count=100&start=201&ref_=adv_nxt''] \<and>
   spec_additional_urls 200 = 0 \<and>
   map_sum id length
     (fst (get_search_urls (\<lambda>url. Inr (listing_page ''1-100 of 1,400 titles.''))
             JAPAN_BASE_URL JAPAN_NEXT_URL [])) = Inr 15 \<and>
   spec_additional_urls 1400 = 12"
  by code_simp

lemma list_index_Inr:
  "list_index xs x = Inr i \<Longrightarrow> i < length xs \<and> xs ! i = x \<and> x \<notin> set (take i xs)"
  by (induction xs arbitrary: i) (auto split: if_splits sum.splits)

lemma list_index_Inl: "list_index xs x = Inl e \<Longrightarrow> e = ValueError \<and> x \<notin> set xs"
  by (induction xs) (auto split: if_splits sum.splits)

lemma getitem_before:
  assumes "i < length xs"
  shows "getitem xs (int i - 1) = Inr (if i = 0 then last xs else xs ! (i - 1))"
proof (cases "i = 0")
  case True
  with assms obtain y ys where xs: "xs = y # ys" by (cases xs) auto
  have "last (y # ys) = (y # ys) ! length ys"
    using last_conv_nth [of "y # ys"] by simp
  with True show ?thesis
    by (simp add: getitem_def xs)
next
  case False
  then have "nat (int i - 1) = i - 1" by simp
  with False assms show ?thesis by (simp add: getitem_def)
qed

text \<open>
  What \<open>get_num_titles\<close> returns for a header with the tokens \<open>mini_header\<close>: ValueError when
  \<open>titles.\<close> is not among them; otherwise \<open>int\<close> of the token before the first \<open>titles.\<close>,
  commas removed, where the token "before" the first position is the last one.
\<close>

lemma get_num_titles_header:
  assumes "fetch base_url = Inr soup"
    and "find_tag_attr soup ''div'' ''class'' ''desc'' = Some d"
    and "findNext d = Some h"
  shows "fst (get_num_titles fetch base_url log) =
     (case list_index (str_split (get_text h)) ''titles.'' of
        Inl e \<Rightarrow> Inl ValueError
      | Inr i \<Rightarrow>
          int_of_str (str_replace (if i = 0 then last (str_split (get_text h))
                                   else str_split (get_text h) ! (i - 1)) '','' ''''))"
proof (cases "list_index (str_split (get_text h)) ''titles.''")
  case (Inl e)
  with list_index_Inl [OF Inl] assms show ?thesis
    by (simp add: get_num_titles_def bind_io_def pure_io_def create_soup_def bind_err_def)
next
  case (Inr i)
  from list_index_Inr [OF Inr] have "i < length (str_split (get_text h))" by simp
  from getitem_before [OF this] Inr assms show ?thesis
    by (simp add: get_num_titles_def bind_io_def pure_io_def create_soup_def bind_err_def)
qed

text \<open>
  C9. When \<open>titles.\<close> is the first token of the header there is no token before it; the
  index \<open>-1\<close> then reads the last token, and a number there is returned instead of a failure.
\<close>

theorem get_num_titles_first_token:
  "fst (get_num_titles (\<lambda>url. Inr (listing_page ''titles. 7'')) JAPAN_BASE_URL []) = Inr 7"
  by code_simp

subsection \<open>Replacing the offset\<close>

lemma prefix_drop:
  assumes "prefix old (c # cs)" "old \<noteq> []"
  shows "c # cs = old @ drop (length old - 1) cs"
proof -
  from assms(2) obtain a o' where o': "old = a # o'" by (cases old) auto
  from assms(1) obtain zs where "c # cs = old @ zs" unfolding prefix_def by blast
  with o' have "a = c" "cs = o' @ zs" by simp_all
  then show ?thesis by (simp add: o')
qed

lemma prefix_drop_length:
  assumes "prefix old (c # cs)" "old \<noteq> []"
  shows "Suc (length cs) = length old + length (drop (length old - 1) cs)"
proof -
  have "length (c # cs) = length (old @ drop (length old - 1) cs)"
    by (rule arg_cong [OF prefix_drop [OF assms]])
  then show ?thesis by (simp only: length_append list.size)
qed

lemma replace_from_length:
  "old \<noteq> [] \<Longrightarrow>
   int (length (replace_from s old new)) =
   int (length s) + int (str_count s old) * (int (length new) - int (length old))"
proof (induction s old new rule: replace_from.induct)
  case (1 old new)
  then show ?case by simp
next
  case (2 c cs old new)
  show ?case
  proof (cases "prefix old (c # cs)")
    case True
    have len: "int (length (c # cs)) = int (length old) + int (length (drop (length old - 1) cs))"
      using prefix_drop_length [OF True "2.prems"] by (simp only: list.size)
    have "replace_from (c # cs) old new = new @ replace_from (drop (length old - 1) cs) old new"
      using True by simp
    moreover have "str_count (c # cs) old = Suc (str_count (drop (length old - 1) cs) old)"
      using True by simp
    ultimately show ?thesis
      using "2.IH"(1) [OF True "2.prems"] len
      by (simp only: length_append of_nat_add of_nat_Suc) (simp only: algebra_simps)
  next
    case False
    with "2.IH"(2) "2.prems" show ?thesis by simp
  qed
qed

lemma replace_from_id:
  "old \<noteq> [] \<Longrightarrow> str_count s old = 0 \<Longrightarrow> replace_from s old new = s"
  by (induction s old new rule: replace_from.induct) (auto split: if_splits)

lemma replace_from_changes:
  "old \<noteq> [] \<Longrightarrow> new \<noteq> old \<Longrightarrow> 0 < str_count s old \<Longrightarrow> replace_from s old new \<noteq> s"
proof (induction s old new rule: replace_from.induct)
  case (1 old new)
  then show ?case by simp
next
  case (2 c cs old new)
  show ?case
  proof (cases "prefix old (c # cs)")
    case True
    let ?rest = "drop (length old - 1) cs"
    have split: "c # cs = old @ ?rest" by (rule prefix_drop [OF True "2.prems"(1)])
    show ?thesis
    proof
      assume eq: "replace_from (c # cs) old new = c # cs"
      with True have "new @ replace_from ?rest old new = c # cs"
        by simp
      from this split have eq': "new @ replace_from ?rest old new = old @ ?rest"
        by (rule trans)
      then have "int (length new) + int (length (replace_from ?rest old new)) =
                 int (length old) + int (length ?rest)"
        by (metis length_append of_nat_add)
      then have "(int (length new) - int (length old)) * (1 + int (str_count ?rest old)) = 0"
        by (simp add: replace_from_length [OF "2.prems"(1)] algebra_simps)
      then have "length new = length old" by auto
      with eq' have "new = old" by simp
      with "2.prems"(2) show False by simp
    qed
  next
    case False
    with "2.IH"(2) "2.prems" show ?thesis by simp
  qed
qed

lemma replace_from_eq_substitute:
  "old \<noteq> [] \<Longrightarrow> new \<noteq> old \<Longrightarrow>
   (replace_from s old new = spec_substitute s old new) = (str_count s old \<le> 1)"
proof (induction s old new rule: replace_from.induct)
  case (1 old new)
  then show ?case by simp
next
  case (2 c cs old new)
  show ?case
  proof (cases "prefix old (c # cs)")
    case True
    let ?rest = "drop (length old - 1) cs"
    have "(replace_from ?rest old new = ?rest) = (str_count ?rest old = 0)"
      using replace_from_id [OF "2.prems"(1), of ?rest new]
        replace_from_changes [OF "2.prems", of ?rest] by auto
    with True show ?thesis by simp
  next
    case False
    with "2.IH"(2) "2.prems" show ?thesis by simp
  qed
qed

lemma prefix_of_longer:
  assumes "prefix old (a @ b)" "length old \<le> length a"
  shows "prefix old a"
proof -
  from assms(1) have "prefix old a \<or> (\<exists>us. old = a @ us \<and> prefix us b)"
    by (simp add: prefix_append)
  then show ?thesis
  proof
    assume "prefix old a"
    then show ?thesis .
  next
    assume "\<exists>us. old = a @ us \<and> prefix us b"
    then obtain us where "old = a @ us" by blast
    with assms(2) show ?thesis by simp
  qed
qed

lemma replace_from_first:
  assumes "old \<noteq> []" "\<not> str_contains (pre @ butlast old) old"
  shows "replace_from (pre @ old @ post) old new = pre @ new @ replace_from post old new"
  using assms(2)
proof (induction pre)
  case Nil
  from assms(1) obtain c cs where old: "old = c # cs" by (cases old) auto
  then show ?case by simp
next
  case (Cons p ps)
  from Cons.prems have no_prefix: "\<not> prefix old (p # ps @ butlast old)"
    and rest: "\<not> str_contains (ps @ butlast old) old"
    by simp_all
  have "\<not> prefix old (p # ps @ old @ post)"
  proof
    assume pre: "prefix old (p # ps @ old @ post)"
    have e: "old @ post = butlast old @ last old # post"
      using append_butlast_last_id [OF assms(1)]
      by (metis append.assoc append_Cons append_Nil)
    from pre have "prefix old (p # ps @ butlast old @ last old # post)"
      unfolding e .
    then have "prefix old ((p # ps @ butlast old) @ ([last old] @ post))"
      by simp
    then have "prefix old (p # ps @ butlast old)"
      by (rule prefix_of_longer) (use assms(1) in simp)
    with no_prefix show False ..
  qed
  with Cons.IH [OF rest] show ?case by simp
qed

lemma digit_val_nth: "n < 10 \<Longrightarrow> digit_val (''0123456789'' ! n) = int n"
proof -
  assume "n < 10"
  then have "n \<in> {0, 1, 2, 3, 4, 5, 6, 7, 8, 9}" by auto
  then show ?thesis by (auto simp: digit_val_def)
qed

lemma digits_val_snoc: "digits_val (ds @ [d]) = 10 * digits_val ds + digit_val d"
  by (simp add: digits_val_def)

lemma digits_val_str_of_nat: "digits_val (str_of_nat n) = int n"
proof (induction n rule: str_of_nat.induct)
  case (1 n)
  show ?case
  proof (cases "n < 10")
    case True
    then show ?thesis
      by (subst str_of_nat.simps) (simp add: digits_val_def digit_val_nth)
  next
    case False
    with 1 have "digits_val (str_of_nat (n div 10)) = int (n div 10)" by simp
    with False show ?thesis
      by (subst str_of_nat.simps) (simp add: digits_val_snoc digit_val_nth zdiv_int zmod_int)
  qed
qed

lemma str_of_int_offset: "str_of_int (201 + 100 * int i) \<noteq> ''101''"
proof
  assume eq: "str_of_int (201 + 100 * int i) = ''101''"
  have "nat (201 + 100 * int i) = 201 + 100 * i" by simp
  with eq have "str_of_nat (201 + 100 * i) = ''101''" by (simp add: str_of_int_def)
  then have "digits_val (str_of_nat (201 + 100 * i)) = digits_val ''101''" by simp
  moreover have "digits_val ''101'' = 101" by (simp add: digits_val_def digit_val_def)
  ultimately have "int (201 + 100 * i) = 101" by (simp only: digits_val_str_of_nat)
  then show False by simp
qed


lemma str_replace_101 [simp]: "str_replace s ''101'' new = replace_from s ''101'' new"
  by (simp add: str_replace_def)

text \<open>
  C10. The additional URLs are the second URL with \<open>replace('101', ...)\<close> applied to the
  whole of it: after the first occurrence of \<open>101\<close> the rest of the URL is replaced in the
  same way, so every occurrence is. The result is the specification's substitution of the
  one offset token exactly when \<open>101\<close> occurs at most once in the second URL.
\<close>

theorem get_search_urls_replaces_all:
  assumes "fst (get_search_urls fetch base_url next_url log) = Inr urls"
  shows "drop 2 urls = map (\<lambda>i. str_replace next_url ''101'' (str_of_int (201 + 100 * int i)))
                          [0..<length urls - 2] \<and>
         (\<forall>i pre post.
            next_url = pre @ ''101'' @ post \<and> \<not> str_contains (pre @ ''10'') ''101'' \<longrightarrow>
            str_replace next_url ''101'' (str_of_int (201 + 100 * int i)) =
              pre @ str_of_int (201 + 100 * int i) @
              str_replace post ''101'' (str_of_int (201 + 100 * int i))) \<and>
         (\<forall>i. (str_replace next_url ''101'' (str_of_int (201 + 100 * int i)) =
                spec_substitute next_url ''101'' (str_of_int (201 + 100 * int i))) =
              (str_count next_url ''101'' \<le> 1))"
proof (intro conjI allI impI)
  from get_search_urls_Inr [OF assms] obtain t
    where t: "fst (get_num_titles fetch base_url log) = Inr t" by blast
  from get_search_urls_result [OF t, of next_url] assms
  have urls: "urls = [base_url, next_url] @
                map (\<lambda>i. str_replace next_url ''101'' (str_of_int (201 + 100 * i)))
                    (py_range (t div 100 - 1))"
    by simp
  then have len: "length urls - 2 = nat (t div 100 - 1)"
    by (simp add: py_range_def)
  show "drop 2 urls = map (\<lambda>i. str_replace next_url ''101'' (str_of_int (201 + 100 * int i)))
                          [0..<length urls - 2]"
    unfolding len by (simp add: urls py_range_def comp_def)
next
  fix i pre post
  assume "next_url = pre @ ''101'' @ post \<and> \<not> str_contains (pre @ ''10'') ''101''"
  then have eq: "next_url = pre @ ''101'' @ post"
    and no: "\<not> str_contains (pre @ butlast ''101'') ''101''" by simp_all
  have "''101'' \<noteq> []" by simp
  from replace_from_first [OF this no, of post]
  show "str_replace next_url ''101'' (str_of_int (201 + 100 * int i)) =
          pre @ str_of_int (201 + 100 * int i) @
          str_replace post ''101'' (str_of_int (201 + 100 * int i))"
    unfolding eq str_replace_101 by simp
next
  fix i
  have "''101'' \<noteq> []" by simp
  from replace_from_eq_substitute [OF this str_of_int_offset [of i], of next_url]
  show "(str_replace next_url ''101'' (str_of_int (201 + 100 * int i)) =
          spec_substitute next_url ''101'' (str_of_int (201 + 100 * int i))) =
        (str_count next_url ''101'' \<le> 1)"
    unfolding str_replace_101 .
qed

theorem get_search_urls_replaces_all_witness:
  "fst (get_search_urls (\<lambda>url. Inr (listing_page ''1-100 of 350 titles.''))
          ''https://www.imdb.com/search/title/?count=101''
          ''https://www.imdb.com/search/title/?count=101&start=101'' []) =
     Inr [''https://www.imdb.com/search/title/?count=101'',
          ''https://www.imdb.com/search/title/?count=101&start=101'',
          ''https://www.imdb.com/search/title/?count=201&start=201'',
          ''https://www.imdb.com/search/title/?count=301&start=301''] \<and>
   drop 2 [''https://www.imdb.com/search/title/?count=101'',
           ''https://www.imdb.com/search/title/?count=101&start=101'',
           ''https://www.imdb.com/search/title/?count=201&start=201'',
           ''https://www.imdb.com/search/title/?count=301&start=301''] =
     map (\<lambda>i. str_replace ''https://www.imdb.com/search/title/?count=101&start=101'' ''101''
                  (str_of_int (201 + 100 * int i))) [0..<2] \<and>
   str_count ''https://www.imdb.com/search/title/?count=101&start=101'' ''101'' = 2 \<and>
   spec_substitute ''https://www.imdb.com/search/title/?count=101&start=101'' ''101''
       (str_of_int (201 + 100 * int 0)) \<noteq>
     str_replace ''https://www.imdb.com/search/title/?count=101&start=101'' ''101''
       (str_of_int (201 + 100 * int 0))"
proof -
  let ?b = "''https://www.imdb.com/search/title/?count=101''"
  let ?n = "''https://www.imdb.com/search/title/?count=101&start=101''"
  let ?urls = "[?b, ?n, ''https://www.imdb.com/search/title/?count=201&start=201'',
                ''https://www.imdb.com/search/title/?count=301&start=301'']"
  have h: "fst (get_search_urls (\<lambda>url. Inr (listing_page ''1-100 of 350 titles.'')) ?b ?n [])
             = Inr ?urls"
    by code_simp
  have c: "str_count ?n ''101'' = 2"
    by code_simp
  note all = get_search_urls_replaces_all [OF h]
  from all have "drop 2 ?urls = map (\<lambda>i. str_replace ?n ''101'' (str_of_int (201 + 100 * int i)))
                                   [0..<length ?urls - 2]"
    by (rule conjunct1)
  moreover have "length ?urls - 2 = 2" by simp
  ultimately have d: "drop 2 ?urls =
      map (\<lambda>i. str_replace ?n ''101'' (str_of_int (201 + 100 * int i))) [0..<2]"
    by (simp only:)
  from all have "\<forall>i. (str_replace ?n ''101'' (str_of_int (201 + 100 * int i)) =
                       spec_substitute ?n ''101'' (str_of_int (201 + 100 * int i))) =
                     (str_count ?n ''101'' \<le> 1)"
    by (rule conjunct2 [THEN conjunct2])
  then have "(str_replace ?n ''101'' (str_of_int (201 + 100 * int 0)) =
                spec_substitute ?n ''101'' (str_of_int (201 + 100 * int 0))) =
             (str_count ?n ''101'' \<le> 1)"
    by (rule spec)
  with c have "spec_substitute ?n ''101'' (str_of_int (201 + 100 * int 0)) \<noteq>
               str_replace ?n ''101'' (str_of_int (201 + 100 * int 0))"
    by (simp only:) simp
  with h d c show ?thesis by (intro conjI)
qed

section \<open>Properties of the field extractors\<close>

text \<open>
  C3. The rating set of the specification holds TV-14 and TV-MA. In the list of the source the
  two literals are joined into one, so a subtext that starts with either is answered with
  \<open>None\<close>, while a rating written correctly in the list is returned.
\<close>

theorem get_mpaa_rating_tv_14:
  "get_mpaa_rating (subtext_block ''TV-14 | 1h 30min | Animation'') = Inr None \<and>
   get_mpaa_rating (subtext_block ''TV-MA | 1h 30min | Animation'') = Inr None \<and>
   get_mpaa_rating (subtext_block ''PG-13 | 1h 30min | Animation'') = Inr (Some ''PG-13'') \<and>
   ''TV-14'' \<notin> set ratings \<and> ''TV-MA'' \<notin> set ratings \<and> ''TV-14TV-MA'' \<in> set ratings"
  by code_simp

lemma country_scan_find:
  "country_scan es =
     (case List.find decides_country es of
        None \<Rightarrow> Inr None
      | Some element \<Rightarrow>
         (case findParent element of
            None \<Rightarrow> Inl AttributeError
          | Some p \<Rightarrow>
             Inr (Some (if str_contains (str_strip (get_text p)) ''Japan'' \<and>
                           str_contains (str_strip (get_text p)) ''USA'' then ''Japan, USA''
                        else if str_contains (str_strip (get_text p)) ''Japan'' then ''Japan''
                        else ''USA''))))"
  by (induction es) (auto simp: decides_country_def Let_def split: option.splits)

text \<open>
  C6, as amended. \<open>get_country\<close> is decided by the first \<open>h4\<close> that holds the label
  \<open>Country:\<close> and whose enclosing text names Japan or the USA: both give \<open>Japan, USA\<close>,
  else Japan gives \<open>Japan\<close>, else \<open>USA\<close>. A marker whose text names neither is passed
  over and the later markers are consulted; the result is \<open>None\<close> only when no marker
  decides.
\<close>

theorem get_country_first_deciding:
  "get_country soup =
     (case List.find decides_country (find_all soup ''h4'') of
        None \<Rightarrow> Inr None
      | Some element \<Rightarrow>
         (case findParent element of
            None \<Rightarrow> Inl AttributeError
          | Some p \<Rightarrow>
             Inr (Some (if str_contains (str_strip (get_text p)) ''Japan'' \<and>
                           str_contains (str_strip (get_text p)) ''USA'' then ''Japan, USA''
                        else if str_contains (str_strip (get_text p)) ''Japan'' then ''Japan''
                        else ''USA''))))"
  unfolding get_country_def by (rule country_scan_find)

text \<open>
  C6 as stated fails: with a first marker for France and a second for Japan, the first
  marker does not decide, and the second one does.
\<close>

theorem get_country_later_marker:
  "get_country (text_block ''Country:'' '' France'' @ text_block ''Country:'' '' Japan'')
     = Inr (Some ''Japan'') \<and>
   spec_get_country (text_block ''Country:'' '' France'' @ text_block ''Country:'' '' Japan'')
     = Inr None"
  by code_simp

text \<open>
  C5, as amended. \<open>get_non_oscar_wins\<close> follows the precedence of the specification, the
  sibling first, except when the sibling that holds \<open>win\<close> has no numeric token: then the
  rule for the summary's own text applies. The two examples of the specification give 5
  and 12.
\<close>

theorem get_non_oscar_wins_precedence:
  "get_non_oscar_wins soup =
     (case find_tag_attr soup ''span'' ''class'' ''awards-blurb'' of
        None \<Rightarrow> Inr None
      | Some blurb \<Rightarrow>
          if sibling_without_number blurb then own_text_wins blurb
          else spec_non_oscar_wins soup) \<and>
   get_non_oscar_wins (awards_block ''Won 2 Oscars. Another 5 wins.'' (Some ''5 wins''))
     = Inr (Some 5) \<and>
   get_non_oscar_wins (awards_block ''12 wins & 3 nominations'' None) = Inr (Some 12)"
proof (intro conjI)
  show "get_non_oscar_wins soup =
     (case find_tag_attr soup ''span'' ''class'' ''awards-blurb'' of
        None \<Rightarrow> Inr None
      | Some blurb \<Rightarrow>
          if sibling_without_number blurb then own_text_wins blurb
          else spec_non_oscar_wins soup)"
    by (auto simp: get_non_oscar_wins_def spec_non_oscar_wins_def sibling_without_number_def
          own_text_wins_def first_digit_token_def bind_err_def Let_def
        split: option.splits sum.splits)
  show "get_non_oscar_wins (awards_block ''Won 2 Oscars. Another 5 wins.'' (Some ''5 wins''))
          = Inr (Some 5)"
    by code_simp
  show "get_non_oscar_wins (awards_block ''12 wins & 3 nominations'' None) = Inr (Some 12)"
    by code_simp
qed

text \<open>
  C5 as stated fails: the summary mentions an Oscar and its sibling holds \<open>win\<close> but no
  number; the source goes on to the summary's own text and returns its first number.
\<close>

theorem get_non_oscar_wins_sibling_without_number:
  "get_non_oscar_wins (awards_block ''Won 2 Oscars. Another 5 wins.'' (Some ''wins & nominations''))
     = Inr (Some 2) \<and>
   spec_non_oscar_wins (awards_block ''Won 2 Oscars. Another 5 wins.'' (Some ''wins & nominations''))
     = Inr None"
  by code_simp

lemma get_budget_enclosing:
  assumes "enclosing_text soup ''Budget:'' = Some t"
  shows "get_budget convert soup =
     (let budget = clean_budget (str_strip t)
      in if str_contains budget ''$''
         then bind_err (dollars_to_int budget) (\<lambda>n. Inr (Some (Dollars n)))
         else bind_err (fx_to_dollars_int convert budget) (\<lambda>a. Inr (Some (Converted a))))"
  using assms
  by (auto simp: enclosing_text_def get_budget_def Let_def split: option.splits)

lemma clean_budget_dollars:
  "clean_budget (str_strip (''Budget:$1,234,567'' @ [CHR 0x0A] @ ''            (estimated)''))
     = ''$1234567''"
  by code_simp

lemma clean_budget_yen: "clean_budget (str_strip ''Budget:JPY500000000'') = ''JPY500000000''"
  by code_simp

lemma dollars_to_int_example: "dollars_to_int ''$1234567'' = Inr 1234567"
  by code_simp

lemma int_of_str_example: "int_of_str ''500000000'' = Inr 500000000"
  by code_simp

text \<open>
  C7, as amended. When the decoration \<open>(estimated)\<close> stands on a line of its own, as
  \<open>clean_budget\<close> expects, the budget of the text \<open>Budget:$1,234,567\<close> is the integer 1234567;
  the budget of \<open>Budget:JPY500000000\<close> is what the converter gives for 500000000 JPY in
  USD on 10 July 2020.
\<close>

theorem get_budget_examples:
  "(enclosing_text soup1 ''Budget:'' =
      Some (''Budget:$1,234,567'' @ [CHR 0x0A] @ ''            (estimated)'') \<longrightarrow>
    get_budget convert soup1 = Inr (Some (Dollars 1234567))) \<and>
   (enclosing_text soup2 ''Budget:'' = Some ''Budget:JPY500000000'' \<longrightarrow>
    get_budget convert soup2 =
      bind_err (convert ''JPY'' ''USD'' 500000000 jul_10_2020) (\<lambda>a. Inr (Some (Converted a))))"
proof (intro conjI impI)
  assume "enclosing_text soup1 ''Budget:'' =
      Some (''Budget:$1,234,567'' @ [CHR 0x0A] @ ''            (estimated)'')"
  from get_budget_enclosing [OF this, of convert]
  show "get_budget convert soup1 = Inr (Some (Dollars 1234567))"
    by (simp only: clean_budget_dollars Let_def dollars_to_int_example bind_err_def) simp
next
  assume "enclosing_text soup2 ''Budget:'' = Some ''Budget:JPY500000000''"
  from get_budget_enclosing [OF this, of convert]
  show "get_budget convert soup2 =
      bind_err (convert ''JPY'' ''USD'' 500000000 jul_10_2020) (\<lambda>a. Inr (Some (Converted a)))"
    by (simp only: clean_budget_yen Let_def)
       (simp add: fx_to_dollars_int_def int_of_str_example bind_err_def)
qed

theorem get_budget_examples_witness:
  "enclosing_text
     (text_block ''Budget:'' (''$1,234,567'' @ [CHR 0x0A] @ ''            (estimated)''))
     ''Budget:'' = Some (''Budget:$1,234,567'' @ [CHR 0x0A] @ ''            (estimated)'') \<and>
   get_budget yen_rate
     (text_block ''Budget:'' (''$1,234,567'' @ [CHR 0x0A] @ ''            (estimated)''))
     = Inr (Some (Dollars 1234567)) \<and>
   enclosing_text (text_block ''Budget:'' ''JPY500000000'') ''Budget:''
     = Some ''Budget:JPY500000000'' \<and>
   get_budget yen_rate (text_block ''Budget:'' ''JPY500000000'') = Inr (Some (Converted 4672897))"
proof -
  let ?s1 = "(text_block ''Budget:'' (''$1,234,567'' @ [CHR 0x0A] @ ''            (estimated)''))"
  let ?s2 = "(text_block ''Budget:'' ''JPY500000000'')"
  have h1: "enclosing_text ?s1 ''Budget:'' =
              Some (''Budget:$1,234,567'' @ [CHR 0x0A] @ ''            (estimated)'')"
    by code_simp
  have h2: "enclosing_text ?s2 ''Budget:'' = Some ''Budget:JPY500000000''"
    by code_simp
  have rate: "bind_err (yen_rate ''JPY'' ''USD'' 500000000 jul_10_2020)
                (\<lambda>a. Inr (Some (Converted a))) = Inr (Some (Converted 4672897))"
    by code_simp
  from get_budget_examples [of ?s1 yen_rate ?s2] h1 h2
  have "get_budget yen_rate ?s1 = Inr (Some (Dollars 1234567))"
    and "get_budget yen_rate ?s2 =
           bind_err (yen_rate ''JPY'' ''USD'' 500000000 jul_10_2020)
             (\<lambda>a. Inr (Some (Converted a)))"
    by blast+
  with h1 h2 rate show ?thesis by (simp only:)
qed

text \<open>
  C7 as stated fails: in the text \<open>Budget:$1,234,567 (estimated)\<close> a space, not a newline,
  stands before the decoration; \<open>clean_budget\<close> keeps it, and \<open>int\<close> raises ValueError.
\<close>

theorem get_budget_space_decoration:
  "enclosing_text (text_block ''Budget:'' ''$1,234,567 (estimated)'') ''Budget:''
     = Some ''Budget:$1,234,567 (estimated)'' \<and>
   get_budget yen_rate (text_block ''Budget:'' ''$1,234,567 (estimated)'') = Inl ValueError"
  by code_simp

section \<open>Properties of one movie\<close>

lemma bind_io_Inr:
  assumes "bind_io m f log = (Inr y, log')"
  obtains x l where "m log = (Inr x, l)" "f x l = (Inr y, log')"
  using assms by (auto simp: bind_io_def split: prod.splits sum.splits)

lemma pure_io_Inr:
  assumes "pure_io r log = (Inr x, log')"
  obtains "r = Inr x" "log' = log"
  using assms by (auto simp: pure_io_def)

lemma create_soup_Inr:
  assumes "create_soup fetch url log = (Inr soup, log')"
  obtains "fetch url = Inr soup" "log' = log @ [url]"
  using assms by (auto simp: create_soup_def)

lemma get_movie_dict_Inr:
  assumes "get_movie_dict fetch to_datetime to_float convert link log = (Inr d, log')"
  shows "\<exists>soup release_info_soup.
           fetch (''https://www.imdb.com'' @ link) = Inr soup \<and>
           fetch (''https://www.imdb.com'' @ link @ ''releaseinfo'') = Inr release_info_soup \<and>
           log' = log @ [''https://www.imdb.com'' @ link,
                         ''https://www.imdb.com'' @ link @ ''releaseinfo''] \<and>
           get_country soup = Inr (country d) \<and>
           (if country d = Some ''Japan'' then
              get_japan_release_date to_datetime release_info_soup = Inr (japan_release_date d) \<and>
              usa_release_date d = None
            else if country d = Some ''USA'' then
              japan_release_date d = None \<and>
              usa_release_date d = get_usa_release_date release_info_soup
            else japan_release_date d = None \<and> usa_release_date d = None)"
  using assms unfolding get_movie_dict_def Let_def
  apply (elim bind_io_Inr pure_io_Inr create_soup_Inr)
  apply (auto simp: bind_err_def split: if_splits sum.splits prod.splits
               elim!: bind_io_Inr pure_io_Inr create_soup_Inr)
  done

lemma example_japan:
  "get_movie_dict
     (example_fetch (text_block ''Country:'' '' Japan'') (japan_release_page ''16 July 1988''))
     (\<lambda>s. Inr s) (\<lambda>s. Inr s) yen_rate ''/title/tt0094625/'' [] =
   (Inr \<lparr>title = None, country = Some ''Japan'', runtime_minutes = None,
         budget = None, global_gross = None, mpaa_rating = None,
         japan_release_date = Some ''16 July 1988'', usa_release_date = None, genres = None,
         imdb_user_rating = None, imdb_user_rating_count = None,
         oscar_wins = None, non_oscar_wins = None, metascore = None\<rparr>,
    [''https://www.imdb.com/title/tt0094625/'',
     ''https://www.imdb.com/title/tt0094625/releaseinfo''])"
  by code_simp

lemma example_both:
  "get_movie_dict (example_fetch (text_block ''Country:'' '' Japan | USA'') [])
     (\<lambda>s. Inr s) (\<lambda>s. Inr s) yen_rate ''/title/tt0094625/'' [] =
   (Inr \<lparr>title = None, country = Some ''Japan, USA'', runtime_minutes = None,
         budget = None, global_gross = None, mpaa_rating = None,
         japan_release_date = None, usa_release_date = None, genres = None,
         imdb_user_rating = None, imdb_user_rating_count = None,
         oscar_wins = None, non_oscar_wins = None, metascore = None\<rparr>,
    [''https://www.imdb.com/title/tt0094625/'',
     ''https://www.imdb.com/title/tt0094625/releaseinfo''])"
  by code_simp

text \<open>
  C1. In every record that \<open>get_movie_dict\<close> produces the two release dates are never both
  present: the country of the record is the one \<open>get_country\<close> extracts from the detail
  page; for Japan the USA date is \<open>None\<close>, for the USA the Japan date is \<open>None\<close>, and for
  every other value, \<open>Japan, USA\<close> and \<open>None\<close> among them, both are \<open>None\<close>.
\<close>

theorem release_dates_exclusive:
  assumes "fst (get_movie_dict fetch to_datetime to_float convert link log) = Inr d"
  shows "(\<exists>soup. fetch (''https://www.imdb.com'' @ link) = Inr soup \<and>
                 get_country soup = Inr (country d)) \<and>
         \<not> (japan_release_date d \<noteq> None \<and> usa_release_date d \<noteq> None) \<and>
         (country d = Some ''Japan'' \<longrightarrow> usa_release_date d = None) \<and>
         (country d = Some ''USA'' \<longrightarrow> japan_release_date d = None) \<and>
         (country d \<noteq> Some ''Japan'' \<and> country d \<noteq> Some ''USA'' \<longrightarrow>
            japan_release_date d = None \<and> usa_release_date d = None)"
proof -
  obtain log' where "get_movie_dict fetch to_datetime to_float convert link log = (Inr d, log')"
    using assms by (cases "get_movie_dict fetch to_datetime to_float convert link log") simp
  from get_movie_dict_Inr [OF this] show ?thesis
    by (auto split: if_splits)
qed

theorem release_dates_exclusive_witness:
  "fst (get_movie_dict
          (example_fetch (text_block ''Country:'' '' Japan'') (japan_release_page ''16 July 1988''))
          (\<lambda>s. Inr s) (\<lambda>s. Inr s) yen_rate ''/title/tt0094625/'' []) =
     Inr \<lparr>title = None, country = Some ''Japan'', runtime_minutes = None,
          budget = None, global_gross = None, mpaa_rating = None,
          japan_release_date = Some ''16 July 1988'', usa_release_date = None, genres = None,
          imdb_user_rating = None, imdb_user_rating_count = None,
          oscar_wins = None, non_oscar_wins = None, metascore = None\<rparr> \<and>
   get_country (text_block ''Country:'' '' Japan'') = Inr (Some ''Japan'') \<and>
   map_sum id usa_release_date
     (fst (get_movie_dict
             (example_fetch (text_block ''Country:'' '' Japan'') (japan_release_page ''16 July 1988''))
             (\<lambda>s. Inr s) (\<lambda>s. Inr s) yen_rate ''/title/tt0094625/'' [])) = Inr None"
proof -
  let ?d = "\<lparr>title = None, country = Some ''Japan'', runtime_minutes = None,
            budget = None, global_gross = None, mpaa_rating = None,
            japan_release_date = Some ''16 July 1988'', usa_release_date = None, genres = None,
            imdb_user_rating = (None :: string option), imdb_user_rating_count = None,
            oscar_wins = None, non_oscar_wins = None, metascore = None\<rparr>
            :: (string, string, int) movie_dict"
  have h: "fst (get_movie_dict
             (example_fetch (text_block ''Country:'' '' Japan'') (japan_release_page ''16 July 1988''))
             (\<lambda>s. Inr s) (\<lambda>s. Inr s) yen_rate ''/title/tt0094625/'' []) = Inr ?d"
    by (simp only: example_japan fst_conv)
  have c: "get_country (text_block ''Country:'' '' Japan'') = Inr (Some ''Japan'')"
    by code_simp
  from release_dates_exclusive [OF h]
  have "country ?d = Some ''Japan'' \<longrightarrow> usa_release_date ?d = None"
    by blast
  then have "usa_release_date ?d = None" by simp
  then have "map_sum id usa_release_date (Inr ?d) = Inr None"
    by (simp only: map_sum.simps)
  then have "map_sum id usa_release_date
     (fst (get_movie_dict
             (example_fetch (text_block ''Country:'' '' Japan'') (japan_release_page ''16 July 1988''))
             (\<lambda>s. Inr s) (\<lambda>s. Inr s) yen_rate ''/title/tt0094625/'' [])) = Inr None"
    by (simp only: h)
  with h c show ?thesis by (intro conjI)
qed

text \<open>
  C4, as amended. Whenever \<open>get_movie_dict\<close> produces a record it has requested the
  release-info page, once and right after the detail page, whatever the country; when the
  country is neither \<open>Japan\<close> nor \<open>USA\<close> both release dates are \<open>None\<close>.
\<close>

theorem release_info_always_fetched:
  assumes "get_movie_dict fetch to_datetime to_float convert link log = (Inr d, log')"
  shows "log' = log @ [''https://www.imdb.com'' @ link,
                       ''https://www.imdb.com'' @ link @ ''releaseinfo''] \<and>
         (country d \<noteq> Some ''Japan'' \<and> country d \<noteq> Some ''USA'' \<longrightarrow>
            japan_release_date d = None \<and> usa_release_date d = None)"
  using get_movie_dict_Inr [OF assms] by (auto split: if_splits)

theorem release_info_always_fetched_witness:
  "get_movie_dict (example_fetch (text_block ''Country:'' '' Japan | USA'') [])
     (\<lambda>s. Inr s) (\<lambda>s. Inr s) yen_rate ''/title/tt0094625/'' [] =
   (Inr \<lparr>title = None, country = Some ''Japan, USA'', runtime_minutes = None,
         budget = None, global_gross = None, mpaa_rating = None,
         japan_release_date = None, usa_release_date = None, genres = None,
         imdb_user_rating = None, imdb_user_rating_count = None,
         oscar_wins = None, non_oscar_wins = None, metascore = None\<rparr>,
    [] @ [''https://www.imdb.com'' @ ''/title/tt0094625/'',
          ''https://www.imdb.com'' @ ''/title/tt0094625/'' @ ''releaseinfo''])"
proof -
  from release_info_always_fetched [OF example_both]
  have "[''https://www.imdb.com/title/tt0094625/'',
         ''https://www.imdb.com/title/tt0094625/releaseinfo''] =
        [] @ [''https://www.imdb.com'' @ ''/title/tt0094625/'',
              ''https://www.imdb.com'' @ ''/title/tt0094625/'' @ ''releaseinfo'']"
    by (rule conjunct1)
  with example_both show ?thesis by (simp only:)
qed

text \<open>
  C4 as stated fails: for a page of a film of Japan and the USA, whose country is the dual
  value, the release-info page is requested all the same.
\<close>

theorem release_info_fetched_for_both:
  "snd (get_movie_dict (example_fetch (text_block ''Country:'' '' Japan | USA'') [])
          (\<lambda>s. Inr s) (\<lambda>s. Inr s) yen_rate ''/title/tt0094625/'' []) =
     [''https://www.imdb.com/title/tt0094625/'',
      ''https://www.imdb.com/title/tt0094625/releaseinfo''] \<and>
   map_sum id country
     (fst (get_movie_dict (example_fetch (text_block ''Country:'' '' Japan | USA'') [])
             (\<lambda>s. Inr s) (\<lambda>s. Inr s) yen_rate ''/title/tt0094625/'' [])) =
     Inr (Some ''Japan, USA'')"
  by code_simp

end
